theory Spec2Isabelle
  imports Main
begin

section \<open>Data model (types.go)\<close>

text \<open>
  \<^verbatim>\<open>interface{}\<close> values (payloads, handler results, panic values) are values of an
  arbitrary type \<open>'v\<close>; a nil interface is \<open>None\<close>. \<^verbatim>\<open>time.Duration\<close> is an integer
  number of nanoseconds.
\<close>

type_synonym Duration = int

record 'v SubRequest =
  ID :: string
  TenantID :: string
  Recipe :: string
  Payload :: "'v option"

text \<open>The \<^verbatim>\<open>Error\<close> struct; \<open>Details\<close> is a map that the orchestrator never fills (nil is \<open>[]\<close>).\<close>

record 'v Error =
  Code :: string
  Message :: string
  Details :: "(string \<times> 'v) list"

text \<open>The \<^verbatim>\<open>Response\<close> struct; \<open>Error\<close> is a pointer, nil is \<open>None\<close>.\<close>

record 'v Response =
  ID :: string
  Status :: int
  Data :: "'v option"
  Error :: "'v Error option"
  Duration :: Duration
  TenantID :: string

definition ErrCodeRecipeNotFound :: string where "ErrCodeRecipeNotFound = ''RECIPE_NOT_FOUND''"
definition ErrCodeTimeout :: string where "ErrCodeTimeout = ''TIMEOUT''"
definition ErrCodePanic :: string where "ErrCodePanic = ''PANIC''"
definition ErrCodeRecipeExecution :: string where "ErrCodeRecipeExecution = ''RECIPE_EXECUTION''"
definition ErrCodeInvalidPayload :: string where "ErrCodeInvalidPayload = ''INVALID_PAYLOAD''"
definition ErrCodeBatchTooLarge :: string where "ErrCodeBatchTooLarge = ''BATCH_TOO_LARGE''"
definition ErrCodeInvalidRequest :: string where "ErrCodeInvalidRequest = ''INVALID_REQUEST''"

text \<open>The zero value of \<^verbatim>\<open>Response\<close>, which \<^verbatim>\<open>make([]Response, n)\<close> puts in every slot.\<close>

definition zeroResponse :: "'v Response" where
  "zeroResponse = \<lparr>ID = [], Status = 0, Data = None, Error = None, Duration = 0, TenantID = []\<rparr>"

text \<open>The three filters: each loop appends the responses that pass the test, in order.\<close>

definition FilterSuccess :: "'v Response list \<Rightarrow> 'v Response list" where
  "FilterSuccess responses = filter (\<lambda>resp. Status resp \<ge> 200 \<and> Status resp < 300) responses"

definition FilterByStatus :: "'v Response list \<Rightarrow> int \<Rightarrow> 'v Response list" where
  "FilterByStatus responses status = filter (\<lambda>resp. Status resp = status) responses"

definition FilterByTenant :: "'v Response list \<Rightarrow> string \<Rightarrow> 'v Response list" where
  "FilterByTenant responses tenantID = filter (\<lambda>resp. TenantID resp = tenantID) responses"

section \<open>Contexts (context.go)\<close>

text \<open>
  A \<^verbatim>\<open>context.Context\<close> as far as the orchestrator uses it: the values stored under the
  three unexported keys, the timeout of the innermost \<^verbatim>\<open>context.WithTimeout\<close> layer, and
  what \<^verbatim>\<open>Err()\<close> returns when the task receives the context (\<open>None\<close> is nil).
\<close>

datatype ctx_err = Canceled | DeadlineExceeded

record Context =
  tenantIDKey :: "string option"
  requestIDKey :: "string option"
  recipeNameKey :: "string option"
  ctxTimeout :: "Duration option"
  ctxErr :: "ctx_err option"

definition Background :: Context where
  "Background = \<lparr>tenantIDKey = None, requestIDKey = None, recipeNameKey = None,
     ctxTimeout = None, ctxErr = None\<rparr>"

definition WithTenantID :: "Context \<Rightarrow> string \<Rightarrow> Context" where
  "WithTenantID ctx tenantID = ctx\<lparr>tenantIDKey := Some tenantID\<rparr>"

definition WithRequestID :: "Context \<Rightarrow> string \<Rightarrow> Context" where
  "WithRequestID ctx requestID = ctx\<lparr>requestIDKey := Some requestID\<rparr>"

definition WithRecipeName :: "Context \<Rightarrow> string \<Rightarrow> Context" where
  "WithRecipeName ctx recipeName = ctx\<lparr>recipeNameKey := Some recipeName\<rparr>"

text \<open>\<^verbatim>\<open>context.WithTimeout\<close>: the child keeps the values and the state of the parent.\<close>

definition context_WithTimeout :: "Context \<Rightarrow> Duration \<Rightarrow> Context" where
  "context_WithTimeout ctx d = ctx\<lparr>ctxTimeout := Some d\<rparr>"

text \<open>
  What a task cannot decide by itself: \<open>fired\<close> is what ends the task context while the
  handler runs (the deadline, or a cancellation by the caller), if anything does;
  \<open>elapsed\<close> is the value \<^verbatim>\<open>time.Since(start)\<close> returns when the task reads it.
\<close>

record TaskEnv =
  fired :: "ctx_err option"
  elapsed :: Duration

text \<open>
  \<^verbatim>\<open>ctx.Err()\<close> read after the handler is over. The error of a context is sticky: a
  context that was already done keeps its error.
\<close>

definition Err :: "Context \<Rightarrow> TaskEnv \<Rightarrow> ctx_err option" where
  "Err ctx env = (case ctxErr ctx of Some e \<Rightarrow> Some e | None \<Rightarrow> fired env)"

section \<open>The orchestrator (package relayer: the Go source in src/README.md, lines 526 to 817)\<close>

text \<open>
  Error values a handler can return: the sentinel \<^verbatim>\<open>*panicError\<close>, or any other error,
  known by the text its \<^verbatim>\<open>Error()\<close> method returns.
\<close>

datatype GoError = panicError | otherError string

fun Error_text :: "GoError \<Rightarrow> string" where
  "Error_text panicError = ''internal error during recipe execution''"
| "Error_text (otherError s) = s"

text \<open>
  One call of a handler either returns \<^verbatim>\<open>(data, err)\<close> or panics with a value that
  \<^verbatim>\<open>recover()\<close> gives back (not nil).
\<close>

datatype 'v HandlerResult = Returns "'v option" "GoError option" | Panics 'v

type_synonym 'v Handler = "Context \<Rightarrow> 'v option \<Rightarrow> 'v HandlerResult"

record RecipeOption =
  Timeout :: Duration

text \<open>
  The \<^verbatim>\<open>Orchestrator\<close> struct. \<open>semaphore\<close> is the number of tokens in the buffered channel
  of capacity \<open>maxConcurrency\<close>. The two hooks are interface values with effects of their
  own: a call of a hook method is recorded as an event (below).
\<close>

record 'v Orchestrator =
  registry :: "string \<rightharpoonup> 'v Handler"
  recipeOptions :: "string \<rightharpoonup> RecipeOption"
  timeout :: Duration
  maxConcurrency :: int
  maxBatchSize :: int
  semaphore :: nat

text \<open>
  The effects of a task, in the order they happen: the send and the receive on the
  semaphore, \<^verbatim>\<open>context.WithTimeout\<close> and its deferred \<^verbatim>\<open>cancel()\<close>, the calls of the hook
  methods with their arguments, and the call \<^verbatim>\<open>handler(ctx, req.Payload)\<close> of the handler
  registered under \<^verbatim>\<open>req.Recipe\<close>. A hook method returns (spec 4.5 makes that the duty
  of the caller; the orchestrator does not guard it), and a handler call ends, by a
  return or by a panic.
\<close>

datatype 'v Event =
    SemAcquire
  | SemRelease
  | ApplyTimeout Duration
  | CancelTimeout
  | OnStart Context "'v SubRequest"
  | CallHandler Context "'v SubRequest"
  | OnPanic Context "'v SubRequest" 'v
  | OnComplete Context "'v SubRequest" "'v Response" Duration

subsection \<open>Options and construction (options.go, New)\<close>

text \<open>
  The options that set a field of the model; \<^verbatim>\<open>WithExecutionHook\<close> and \<^verbatim>\<open>WithPanicHook\<close>
  only choose who receives the hook calls.
\<close>

datatype OrchOption = WithTimeout Duration | WithMaxConcurrency int | WithMaxBatchSize int

text \<open>Applying one option; \<open>Inl\<close> is the panic message.\<close>

fun applyOption :: "OrchOption \<Rightarrow> 'v Orchestrator \<Rightarrow> string + 'v Orchestrator" where
  "applyOption (WithTimeout d) orch =
     (if d \<le> 0 then Inl ''timeout must be positive'' else Inr (orch\<lparr>timeout := d\<rparr>))"
| "applyOption (WithMaxConcurrency m) orch =
     (if m < 0 then Inl ''max concurrency must be non-negative''
      else Inr (orch\<lparr>maxConcurrency := m\<rparr>))"
| "applyOption (WithMaxBatchSize m) orch =
     (if m < 0 then Inl ''max batch size must be non-negative''
      else Inr (orch\<lparr>maxBatchSize := m\<rparr>))"

fun applyOptions :: "OrchOption list \<Rightarrow> 'v Orchestrator \<Rightarrow> string + 'v Orchestrator" where
  "applyOptions [] orch = Inr orch"
| "applyOptions (opt # opts) orch =
     (case applyOption opt orch of Inl msg \<Rightarrow> Inl msg | Inr orch' \<Rightarrow> applyOptions opts orch')"

text \<open>\<^verbatim>\<open>New\<close>: the defaults (5 seconds), then the options; the channel starts empty.\<close>

definition New :: "OrchOption list \<Rightarrow> string + 'v Orchestrator" where
  "New opts = applyOptions opts
     \<lparr>registry = Map.empty, recipeOptions = Map.empty, timeout = 5 * 1000000000,
      maxConcurrency = 0, maxBatchSize = 0, semaphore = 0\<rparr>"

subsection \<open>Registration\<close>

text \<open>
  \<^verbatim>\<open>RegisterRecipe\<close>: the handler argument may be nil (\<open>None\<close>); \<open>opts\<close> is the variadic
  list of \<^verbatim>\<open>*RecipeOption\<close>, each possibly nil. \<open>Inl\<close> is the panic message.
\<close>

definition RegisterRecipe ::
  "'v Orchestrator \<Rightarrow> string \<Rightarrow> 'v Handler option \<Rightarrow> RecipeOption option list
    \<Rightarrow> string + 'v Orchestrator" where
  "RegisterRecipe orch name handler opts =
     (if name = [] then Inl ''recipe name cannot be empty''
      else case handler of
        None \<Rightarrow> Inl ''recipe handler cannot be nil''
      | Some h \<Rightarrow>
          Inr (orch\<lparr>registry := (registry orch)(name \<mapsto> h),
                    recipeOptions :=
                      (case opts of
                         Some opt # _ \<Rightarrow> (recipeOptions orch)(name \<mapsto> opt)
                       | _ \<Rightarrow> recipeOptions orch)\<rparr>))"

text \<open>
  Modelled from the spec: \<^verbatim>\<open>RegisterRecipeStrict\<close> is called by security_test.go but its
  body is not among the sources. Spec 4.1: "same validation, but returns a recoverable
  'already registered' error instead of overwriting if the name exists; does not mutate
  on failure". \<open>Inl\<close> is the panic message; otherwise the returned error (nil is \<open>None\<close>)
  and the orchestrator after the call.
\<close>

datatype RegisterError = AlreadyRegistered string

definition RegisterRecipeStrict ::
  "'v Orchestrator \<Rightarrow> string \<Rightarrow> 'v Handler option \<Rightarrow> RecipeOption option list
    \<Rightarrow> string + (RegisterError option \<times> 'v Orchestrator)" where
  "RegisterRecipeStrict orch name handler opts =
     (if name = [] then Inl ''recipe name cannot be empty''
      else case handler of
        None \<Rightarrow> Inl ''recipe handler cannot be nil''
      | Some h \<Rightarrow>
          (case registry orch name of
             Some _ \<Rightarrow> Inr (Some (AlreadyRegistered name), orch)
           | None \<Rightarrow>
               Inr (None,
                 orch\<lparr>registry := (registry orch)(name \<mapsto> h),
                      recipeOptions :=
                        (case opts of
                           Some opt # _ \<Rightarrow> (recipeOptions orch)(name \<mapsto> opt)
                         | _ \<Rightarrow> recipeOptions orch)\<rparr>)))"

subsection \<open>Formatting\<close>

text \<open>\<^verbatim>\<open>fmt.Sprintf("%d", n)\<close>: decimal digits, with a sign for negative numbers.\<close>

fun fmt_nat :: "nat \<Rightarrow> string" where
  "fmt_nat n =
     (if n < 10 then [char_of (48 + n)]
      else fmt_nat (n div 10) @ [char_of (48 + n mod 10)])"

declare fmt_nat.simps [simp del]

definition fmt_d :: "int \<Rightarrow> string" where
  "fmt_d i = (if i < 0 then CHR ''-'' # fmt_nat (nat (- i)) else fmt_nat (nat i))"

text \<open>Reading a string of decimal digits back.\<close>

definition decimal_value :: "string \<Rightarrow> nat" where
  "decimal_value s = foldl (\<lambda>a c. 10 * a + (of_char c - 48)) 0 s"

subsection \<open>safeExecute\<close>

text \<open>
  The response literals of \<^verbatim>\<open>safeExecute\<close> leave \<open>Duration\<close> and \<open>TenantID\<close> at their zero
  values. The handler runs inside a function whose deferred \<^verbatim>\<open>recover()\<close> calls the panic
  hook and sets \<open>err\<close> to the sentinel; \<open>data\<close> then keeps its zero value.
\<close>

definition errorResponse :: "string \<Rightarrow> int \<Rightarrow> string \<Rightarrow> string \<Rightarrow> 'v Response" where
  "errorResponse rid st code msg =
     \<lparr>ID = rid, Status = st, Data = None,
      Error = Some \<lparr>Code = code, Message = msg, Details = []\<rparr>,
      Duration = 0, TenantID = []\<rparr>"

definition safeExecute ::
  "'v Orchestrator \<Rightarrow> Context \<Rightarrow> TaskEnv \<Rightarrow> 'v SubRequest \<Rightarrow> 'v Response \<times> 'v Event list" where
  "safeExecute orch ctx env req =
     (case registry orch (Recipe req) of
        None \<Rightarrow>
          (errorResponse (SubRequest.ID req) 404 ErrCodeRecipeNotFound
             (''recipe '' @ [CHR 0x27] @ Recipe req @ [CHR 0x27] @ '' not found''), [])
      | Some handler \<Rightarrow>
          (let (data, err, tr) =
                 (case handler ctx (Payload req) of
                    Returns d e \<Rightarrow> (d, e, [CallHandler ctx req])
                  | Panics r \<Rightarrow>
                      (None, Some panicError,
                       [CallHandler ctx req, OnPanic ctx req r]))
           in if Err ctx env = Some DeadlineExceeded then
                (errorResponse (SubRequest.ID req) 504 ErrCodeTimeout
                   ''recipe execution timed out'', tr)
              else case err of
                Some e \<Rightarrow>
                  (case e of
                     panicError \<Rightarrow>
                       (errorResponse (SubRequest.ID req) 500 ErrCodePanic (Error_text e), tr)
                   | otherError _ \<Rightarrow>
                       (errorResponse (SubRequest.ID req) 500 ErrCodeRecipeExecution
                          (Error_text e), tr))
              | None \<Rightarrow>
                  (\<lparr>ID = SubRequest.ID req, Status = 200, Data = data, Error = None,
                    Duration = 0, TenantID = []\<rparr>, tr)))"

subsection \<open>executeRequest\<close>

text \<open>
  The channel operations. \<^verbatim>\<open>o.semaphore <- struct{}{}\<close> completes when the buffer has
  room; while it is full the goroutine stays blocked in the send (\<open>None\<close>). The statement
  is a plain send: it does not look at the context.
\<close>

definition sem_send :: "'v Orchestrator \<Rightarrow> 'v Orchestrator option" where
  "sem_send orch =
     (if int (semaphore orch) < maxConcurrency orch
      then Some (orch\<lparr>semaphore := semaphore orch + 1\<rparr>) else None)"

definition sem_recv :: "'v Orchestrator \<Rightarrow> 'v Orchestrator" where
  "sem_recv orch = orch\<lparr>semaphore := semaphore orch - 1\<rparr>"

text \<open>The timeout of a recipe: the per-recipe option when it exists and is positive.\<close>

definition recipeTimeout :: "'v Orchestrator \<Rightarrow> string \<Rightarrow> Duration" where
  "recipeTimeout orch recipe =
     (case recipeOptions orch recipe of
        Some recipeOpt \<Rightarrow> if Timeout recipeOpt > 0 then Timeout recipeOpt else timeout orch
      | None \<Rightarrow> timeout orch)"

definition enrich :: "Context \<Rightarrow> 'v SubRequest \<Rightarrow> Context" where
  "enrich ctx req =
     WithRecipeName (WithRequestID (WithTenantID ctx (SubRequest.TenantID req))
       (SubRequest.ID req)) (Recipe req)"

text \<open>
  The body of \<^verbatim>\<open>executeRequest\<close> from \<^verbatim>\<open>start := time.Now()\<close> on: validation, enrichment,
  timeout, start hook, \<^verbatim>\<open>safeExecute\<close>, completion hook, and the deferred \<^verbatim>\<open>cancel()\<close>.
  The response returned is the one written to \<^verbatim>\<open>*result\<close>.
\<close>

definition runRequest ::
  "'v Orchestrator \<Rightarrow> Context \<Rightarrow> TaskEnv \<Rightarrow> 'v SubRequest \<Rightarrow> 'v Response \<times> 'v Event list" where
  "runRequest orch ctx env req =
     (if SubRequest.ID req = [] \<or> SubRequest.TenantID req = [] \<or> Recipe req = [] then
        (\<lparr>ID = SubRequest.ID req, Status = 400, Data = None,
          Error = Some \<lparr>Code = ErrCodeInvalidRequest,
                        Message = ''request must have non-empty ID, TenantID, and Recipe'',
                        Details = []\<rparr>,
          Duration = elapsed env, TenantID = SubRequest.TenantID req\<rparr>, [])
      else
        (let taskCtx = context_WithTimeout (enrich ctx req) (recipeTimeout orch (Recipe req));
             (resp0, tr) = safeExecute orch taskCtx env req;
             resp = resp0\<lparr>Duration := elapsed env, TenantID := SubRequest.TenantID req\<rparr>
         in (resp,
             [ApplyTimeout (recipeTimeout orch (Recipe req)), OnStart taskCtx req] @ tr @
             [OnComplete taskCtx req resp (Duration resp), CancelTimeout])))"

text \<open>
  \<^verbatim>\<open>executeRequest\<close>: with a concurrency limit the task first sends on the semaphore and
  defers the receive; \<open>None\<close> is a task that is still blocked in the send.
\<close>

definition executeRequest ::
  "'v Orchestrator \<Rightarrow> Context \<Rightarrow> TaskEnv \<Rightarrow> 'v SubRequest
    \<Rightarrow> ('v Response \<times> 'v Event list \<times> 'v Orchestrator) option" where
  "executeRequest orch ctx env req =
     (if maxConcurrency orch > 0 then
        (case sem_send orch of
           None \<Rightarrow> None
         | Some orch1 \<Rightarrow>
             (let (resp, tr) = runRequest orch1 ctx env req
              in Some (resp, [SemAcquire] @ tr @ [SemRelease], sem_recv orch1)))
      else
        (let (resp, tr) = runRequest orch ctx env req in Some (resp, tr, orch)))"

subsection \<open>ExecuteBatch\<close>

text \<open>
  The goroutines of a batch share the semaphore only; each one writes the slot of its own
  index. The model runs them one after the other in the order they are started, task \<open>i\<close>
  with the environment \<open>envs i\<close>, and joins their events; \<open>None\<close> is a batch with a task
  that is still blocked in its send, so that \<^verbatim>\<open>wg.Wait()\<close> has not returned.
\<close>

fun runTasks ::
  "'v Orchestrator \<Rightarrow> Context \<Rightarrow> (nat \<Rightarrow> TaskEnv) \<Rightarrow> nat \<Rightarrow> 'v SubRequest list
    \<Rightarrow> 'v Response list \<Rightarrow> ('v Response list \<times> 'v Event list \<times> 'v Orchestrator) option" where
  "runTasks orch ctx envs i [] results = Some (results, [], orch)"
| "runTasks orch ctx envs i (req # batch) results =
     (case executeRequest orch ctx (envs i) req of
        None \<Rightarrow> None
      | Some (resp, tr, orch1) \<Rightarrow>
          (case runTasks orch1 ctx envs (Suc i) batch (results[i := resp]) of
             None \<Rightarrow> None
           | Some (results', tr', orch2) \<Rightarrow> Some (results', tr @ tr', orch2)))"

definition tooLarge :: "'v Orchestrator \<Rightarrow> nat \<Rightarrow> 'v SubRequest \<Rightarrow> 'v Response" where
  "tooLarge orch n req =
     \<lparr>ID = SubRequest.ID req, Status = 413, Data = None,
      Error = Some \<lparr>Code = ErrCodeBatchTooLarge,
                    Message = ''batch size '' @ fmt_d (int n) @ '' exceeds limit of '' @
                              fmt_d (maxBatchSize orch),
                    Details = []\<rparr>,
      Duration = 0, TenantID = SubRequest.TenantID req\<rparr>"

definition ExecuteBatch ::
  "'v Orchestrator \<Rightarrow> Context \<Rightarrow> (nat \<Rightarrow> TaskEnv) \<Rightarrow> 'v SubRequest list
    \<Rightarrow> ('v Response list \<times> 'v Event list \<times> 'v Orchestrator) option" where
  "ExecuteBatch orch ctx envs batch =
     (if maxBatchSize orch > 0 \<and> int (length batch) > maxBatchSize orch then
        Some (map (tooLarge orch (length batch)) batch, [], orch)
      else runTasks orch ctx envs 0 batch (replicate (length batch) zeroResponse))"

text \<open>
  The same tasks run in any other order \<open>sched\<close> (a list of indices): used to show that
  the order does not matter for the responses.
\<close>

fun runSchedule ::
  "'v Orchestrator \<Rightarrow> Context \<Rightarrow> (nat \<Rightarrow> TaskEnv) \<Rightarrow> 'v SubRequest list \<Rightarrow> nat list
    \<Rightarrow> 'v Response list \<Rightarrow> ('v Response list \<times> 'v Event list \<times> 'v Orchestrator) option" where
  "runSchedule orch ctx envs batch [] results = Some (results, [], orch)"
| "runSchedule orch ctx envs batch (i # sched) results =
     (case executeRequest orch ctx (envs i) (batch ! i) of
        None \<Rightarrow> None
      | Some (resp, tr, orch1) \<Rightarrow>
          (case runSchedule orch1 ctx envs batch sched (results[i := resp]) of
             None \<Rightarrow> None
           | Some (results', tr', orch2) \<Rightarrow> Some (results', tr @ tr', orch2)))"

section \<open>Vocabulary of the properties\<close>

text \<open>Which events are calls of a handler or of a hook method.\<close>

fun isCallHandler :: "'v Event \<Rightarrow> bool" where
  "isCallHandler (CallHandler _ _) = True"
| "isCallHandler _ = False"

fun isOnStart :: "'v Event \<Rightarrow> bool" where
  "isOnStart (OnStart _ _) = True"
| "isOnStart _ = False"

fun isOnComplete :: "'v Event \<Rightarrow> bool" where
  "isOnComplete (OnComplete _ _ _ _) = True"
| "isOnComplete _ = False"

fun isOnPanic :: "'v Event \<Rightarrow> bool" where
  "isOnPanic (OnPanic _ _ _) = True"
| "isOnPanic _ = False"

text \<open>The send on the semaphore can complete: no limit, or room in the buffer.\<close>

definition slotFree :: "'v Orchestrator \<Rightarrow> bool" where
  "slotFree orch = (maxConcurrency orch \<le> 0 \<or> int (semaphore orch) < maxConcurrency orch)"

text \<open>The three fields that validation requires, and the batch size check.\<close>

definition validRequest :: "'v SubRequest \<Rightarrow> bool" where
  "validRequest req = (SubRequest.ID req \<noteq> [] \<and> SubRequest.TenantID req \<noteq> [] \<and> Recipe req \<noteq> [])"

definition oversized :: "'v Orchestrator \<Rightarrow> 'v SubRequest list \<Rightarrow> bool" where
  "oversized orch batch = (maxBatchSize orch > 0 \<and> int (length batch) > maxBatchSize orch)"

text \<open>
  The response a task writes and the events it causes once its send on the semaphore has
  completed.
\<close>

definition taskResponse :: "'v Orchestrator \<Rightarrow> Context \<Rightarrow> TaskEnv \<Rightarrow> 'v SubRequest \<Rightarrow> 'v Response" where
  "taskResponse orch ctx env req = fst (runRequest orch ctx env req)"

definition taskTrace :: "'v Orchestrator \<Rightarrow> Context \<Rightarrow> TaskEnv \<Rightarrow> 'v SubRequest \<Rightarrow> 'v Event list" where
  "taskTrace orch ctx env req =
     (if maxConcurrency orch > 0
      then [SemAcquire] @ snd (runRequest orch ctx env req) @ [SemRelease]
      else snd (runRequest orch ctx env req))"

text \<open>The context a task hands to the hooks and to the handler.\<close>

definition taskContext :: "'v Orchestrator \<Rightarrow> Context \<Rightarrow> 'v SubRequest \<Rightarrow> Context" where
  "taskContext orch ctx req = context_WithTimeout (enrich ctx req) (recipeTimeout orch (Recipe req))"

text \<open>Projections of what a task or a batch returns.\<close>

definition respOf :: "('r \<times> 't \<times> 's) option \<Rightarrow> 'r option" where
  "respOf res = map_option fst res"

definition traceOf :: "('r \<times> 't \<times> 's) option \<Rightarrow> 't option" where
  "traceOf res = map_option (fst \<circ> snd) res"

text \<open>The code of the error of a response, if it has one.\<close>

definition codeOf :: "'v Response \<Rightarrow> string option" where
  "codeOf resp = map_option Code (Error resp)"

text \<open>The status and error code pairs of the error taxonomy.\<close>

definition statusCodes :: "(int \<times> string) list" where
  "statusCodes =
     [(400, ''INVALID_REQUEST''), (404, ''RECIPE_NOT_FOUND''), (413, ''BATCH_TOO_LARGE''),
      (500, ''PANIC''), (500, ''RECIPE_EXECUTION''), (504, ''TIMEOUT'')]"

definition errorShape :: "'v Response \<Rightarrow> bool" where
  "errorShape resp =
     (case Error resp of
        None \<Rightarrow> Status resp = 200
      | Some e \<Rightarrow> (Status resp, Code e) \<in> set statusCodes)"

section \<open>Concrete orchestrators, handlers and requests\<close>

text \<open>Handlers: one returns its payload, one panics, one returns a constant.\<close>

definition echo :: "string Handler" where
  "echo ctx payload = Returns payload None"

definition boom :: "string Handler" where
  "boom ctx payload = Panics ''sensitive internal error with file paths''"

definition slow :: "string Handler" where
  "slow ctx payload = Returns (Some ''ok'') None"

definition env0 :: TaskEnv where
  "env0 = \<lparr>fired = None, elapsed = 1000\<rparr>"

definition envLate :: TaskEnv where
  "envLate = \<lparr>fired = Some DeadlineExceeded, elapsed = 6000000000\<rparr>"

text \<open>An orchestrator without limits, as \<^verbatim>\<open>New()\<close> and three registrations leave it.\<close>

definition demoOrch :: "string Orchestrator" where
  "demoOrch =
     \<lparr>registry = [''echo'' \<mapsto> echo, ''panic-recipe'' \<mapsto> boom, ''slow'' \<mapsto> slow],
      recipeOptions = Map.empty, timeout = 5000000000,
      maxConcurrency = 0, maxBatchSize = 0, semaphore = 0\<rparr>"

text \<open>One concurrency slot: free in \<open>idleOrch\<close>, held by another task in \<open>busyOrch\<close>.\<close>

definition idleOrch :: "string Orchestrator" where
  "idleOrch = demoOrch\<lparr>maxConcurrency := 1\<rparr>"

definition busyOrch :: "string Orchestrator" where
  "busyOrch = demoOrch\<lparr>maxConcurrency := 1, semaphore := 1\<rparr>"

definition sizedOrch :: "string Orchestrator" where
  "sizedOrch = demoOrch\<lparr>maxBatchSize := 10\<rparr>"

definition reqEcho :: "string SubRequest" where
  "reqEcho = \<lparr>SubRequest.ID = ''1'', TenantID = ''a'', Recipe = ''echo'', Payload = Some ''hi''\<rparr>"

definition reqMissing :: "string SubRequest" where
  "reqMissing = \<lparr>SubRequest.ID = ''2'', TenantID = ''b'', Recipe = ''missing'', Payload = None\<rparr>"

definition reqPanic :: "string SubRequest" where
  "reqPanic = \<lparr>SubRequest.ID = ''3'', TenantID = ''tenant-a'', Recipe = ''panic-recipe'', Payload = None\<rparr>"

definition reqSlow :: "string SubRequest" where
  "reqSlow = \<lparr>SubRequest.ID = ''2'', TenantID = ''tenant-b'', Recipe = ''slow'', Payload = None\<rparr>"

definition reqNoTenant :: "string SubRequest" where
  "reqNoTenant = \<lparr>SubRequest.ID = ''1'', TenantID = [], Recipe = ''echo'', Payload = None\<rparr>"

definition cancelledCtx :: Context where
  "cancelledCtx = Background\<lparr>ctxErr := Some Canceled\<rparr>"

definition bigBatch :: "string SubRequest list" where
  "bigBatch =
     map (\<lambda>i. \<lparr>SubRequest.ID = [char_of (97 + i)], TenantID = ''tenant-a'', Recipe = ''echo'',
               Payload = None\<rparr>) [0..<20]"

section \<open>Basic facts\<close>

lemma safeExecute_semaphore [simp]:
  "safeExecute (orch\<lparr>semaphore := s\<rparr>) ctx env req = safeExecute orch ctx env req"
  by (simp add: safeExecute_def)

lemma recipeTimeout_semaphore [simp]:
  "recipeTimeout (orch\<lparr>semaphore := s\<rparr>) r = recipeTimeout orch r"
  by (simp add: recipeTimeout_def split: option.splits)

lemma runRequest_semaphore [simp]:
  "runRequest (orch\<lparr>semaphore := s\<rparr>) ctx env req = runRequest orch ctx env req"
  by (simp add: runRequest_def)

text \<open>A task whose send completes returns, and gives the slot back.\<close>

lemma executeRequest_free:
  assumes "slotFree orch"
  shows "executeRequest orch ctx env req =
     Some (taskResponse orch ctx env req, taskTrace orch ctx env req, orch)"
  using assms
  by (auto simp: executeRequest_def slotFree_def sem_send_def sem_recv_def
      taskResponse_def taskTrace_def split: prod.splits)

text \<open>With every slot taken the task stays in the send, whatever the context says.\<close>

lemma executeRequest_blocked:
  assumes "maxConcurrency orch > 0" and "\<not> int (semaphore orch) < maxConcurrency orch"
  shows "executeRequest orch ctx env req = None"
  using assms by (simp add: executeRequest_def sem_send_def)

lemma upt_0_Suc: "[0..<Suc n] = 0 # map Suc [0..<n]"
  by (simp add: upt_conv_Cons map_Suc_upt del: upt_Suc)

text \<open>
  The loop over the batch: the slots from \<open>i\<close> on receive the responses of the tasks, every
  other slot is left alone, and the list is never extended.
\<close>

lemma runTasks_free:
  assumes "slotFree orch"
  shows "\<exists>results'. runTasks orch ctx envs i batch results =
       Some (results',
             concat (map (\<lambda>k. taskTrace orch ctx (envs (i + k)) (batch ! k)) [0..<length batch]),
             orch)
     \<and> length results' = length results
     \<and> (\<forall>j<length results. results' ! j =
           (if i \<le> j \<and> j < i + length batch
            then taskResponse orch ctx (envs j) (batch ! (j - i))
            else results ! j))"
  using assms
proof (induction batch arbitrary: i results)
  case Nil
  then show ?case by auto
next
  case (Cons req batch)
  let ?r0 = "taskResponse orch ctx (envs i) req"
  obtain rs where run: "runTasks orch ctx envs (Suc i) batch (results[i := ?r0]) =
       Some (rs,
             concat (map (\<lambda>k. taskTrace orch ctx (envs (Suc i + k)) (batch ! k)) [0..<length batch]),
             orch)"
    and len: "length rs = length (results[i := ?r0])"
    and nth: "\<forall>j<length (results[i := ?r0]). rs ! j =
           (if Suc i \<le> j \<and> j < Suc i + length batch
            then taskResponse orch ctx (envs j) (batch ! (j - Suc i))
            else (results[i := ?r0]) ! j)"
    using Cons.IH[OF Cons.prems, of "Suc i" "results[i := ?r0]"] by blast
  have tr: "concat (map (\<lambda>k. taskTrace orch ctx (envs (i + k)) ((req # batch) ! k))
                [0..<length (req # batch)])
      = taskTrace orch ctx (envs i) req @
        concat (map (\<lambda>k. taskTrace orch ctx (envs (Suc i + k)) (batch ! k)) [0..<length batch])"
    by (simp add: upt_0_Suc comp_def del: upt_Suc)
  have "runTasks orch ctx envs i (req # batch) results =
     Some (rs, concat (map (\<lambda>k. taskTrace orch ctx (envs (i + k)) ((req # batch) ! k))
                  [0..<length (req # batch)]), orch)"
    unfolding tr by (simp add: executeRequest_free[OF Cons.prems] run)
  moreover have "length rs = length results" using len by simp
  moreover have "\<forall>j<length results. rs ! j =
           (if i \<le> j \<and> j < i + length (req # batch)
            then taskResponse orch ctx (envs j) ((req # batch) ! (j - i))
            else results ! j)"
  proof (intro allI impI)
    fix j assume j: "j < length results"
    show "rs ! j = (if i \<le> j \<and> j < i + length (req # batch)
            then taskResponse orch ctx (envs j) ((req # batch) ! (j - i))
            else results ! j)"
    proof (cases "j = i")
      case True
      then show ?thesis using nth j by simp
    next
      case False
      then show ?thesis using nth j by (auto simp: nth_Cons' Suc_diff_Suc)
    qed
  qed
  ultimately show ?case by blast
qed

lemma ExecuteBatch_oversized:
  assumes "oversized orch B"
  shows "ExecuteBatch orch ctx envs B = Some (map (tooLarge orch (length B)) B, [], orch)"
  using assms by (simp add: ExecuteBatch_def oversized_def)

lemma ExecuteBatch_free:
  assumes "slotFree orch" and "\<not> oversized orch B"
  shows "ExecuteBatch orch ctx envs B =
     Some (map (\<lambda>j. taskResponse orch ctx (envs j) (B ! j)) [0..<length B],
           concat (map (\<lambda>j. taskTrace orch ctx (envs j) (B ! j)) [0..<length B]), orch)"
proof -
  obtain rs where run: "runTasks orch ctx envs 0 B (replicate (length B) zeroResponse) =
       Some (rs, concat (map (\<lambda>k. taskTrace orch ctx (envs (0 + k)) (B ! k)) [0..<length B]),
             orch)"
    and len: "length rs = length (replicate (length B) (zeroResponse :: 'a Response))"
    and nth: "\<forall>j<length (replicate (length B) (zeroResponse :: 'a Response)). rs ! j =
           (if 0 \<le> j \<and> j < 0 + length B then taskResponse orch ctx (envs j) (B ! (j - 0))
            else replicate (length B) zeroResponse ! j)"
    using runTasks_free[OF assms(1), of ctx envs 0 B "replicate (length B) zeroResponse"]
    by blast
  have "rs = map (\<lambda>j. taskResponse orch ctx (envs j) (B ! j)) [0..<length B]"
    using len nth by (intro nth_equalityI) auto
  then show ?thesis using run assms(2) by (auto simp: ExecuteBatch_def oversized_def)
qed

text \<open>
  Running the tasks in another order, each index at least once, gives the same responses:
  a task reads nothing that another task writes.
\<close>

lemma runSchedule_free:
  assumes "slotFree orch"
  shows "\<exists>results' tr.
       runSchedule orch ctx envs batch sched results = Some (results', tr, orch)
     \<and> length results' = length results
     \<and> (\<forall>j<length results. results' ! j =
           (if j \<in> set sched then taskResponse orch ctx (envs j) (batch ! j)
            else results ! j))"
  using assms
proof (induction sched arbitrary: results)
  case Nil
  then show ?case by simp
next
  case (Cons i sched)
  let ?r0 = "taskResponse orch ctx (envs i) (batch ! i)"
  obtain rs tr where
    run: "runSchedule orch ctx envs batch sched (results[i := ?r0]) = Some (rs, tr, orch)"
    and len: "length rs = length (results[i := ?r0])"
    and nth: "\<forall>j<length (results[i := ?r0]). rs ! j =
           (if j \<in> set sched then taskResponse orch ctx (envs j) (batch ! j)
            else (results[i := ?r0]) ! j)"
    using Cons.IH[OF Cons.prems, of "results[i := ?r0]"] by blast
  have "runSchedule orch ctx envs batch (i # sched) results =
          Some (rs, taskTrace orch ctx (envs i) (batch ! i) @ tr, orch)"
    by (simp add: executeRequest_free[OF Cons.prems] run)
  moreover have "length rs = length results" using len by simp
  moreover have "\<forall>j<length results. rs ! j =
           (if j \<in> set (i # sched) then taskResponse orch ctx (envs j) (batch ! j)
            else results ! j)"
    using nth by (auto simp: nth_list_update)
  ultimately show ?case by blast
qed

lemma schedule_independent:
  assumes "slotFree orch" and "\<not> oversized orch B" and "set sched = {0..<length B}"
  shows "respOf (runSchedule orch ctx envs B sched (replicate (length B) zeroResponse))
       = respOf (ExecuteBatch orch ctx envs B)"
proof -
  obtain rs tr where
    run: "runSchedule orch ctx envs B sched (replicate (length B) zeroResponse)
            = Some (rs, tr, orch)"
    and len: "length rs = length (replicate (length B) (zeroResponse :: 'a Response))"
    and nth: "\<forall>j<length (replicate (length B) (zeroResponse :: 'a Response)). rs ! j =
           (if j \<in> set sched then taskResponse orch ctx (envs j) (B ! j)
            else replicate (length B) zeroResponse ! j)"
    using runSchedule_free[OF assms(1), of ctx envs B sched "replicate (length B) zeroResponse"]
    by blast
  have "rs = map (\<lambda>j. taskResponse orch ctx (envs j) (B ! j)) [0..<length B]"
    using len nth assms(3) by (intro nth_equalityI) auto
  then show ?thesis
    by (simp add: run ExecuteBatch_free[OF assms(1,2)] respOf_def)
qed

text \<open>The two shapes of the body of a task.\<close>

lemma runRequest_invalid:
  assumes "\<not> validRequest req"
  shows "runRequest orch ctx env req =
     (\<lparr>ID = SubRequest.ID req, Status = 400, Data = None,
       Error = Some \<lparr>Code = ErrCodeInvalidRequest,
                     Message = ''request must have non-empty ID, TenantID, and Recipe'',
                     Details = []\<rparr>,
       Duration = elapsed env, TenantID = SubRequest.TenantID req\<rparr>, [])"
  using assms by (auto simp: runRequest_def validRequest_def)

lemma runRequest_valid:
  assumes "validRequest req"
  shows "runRequest orch ctx env req =
     ((fst (safeExecute orch (taskContext orch ctx req) env req))
        \<lparr>Duration := elapsed env, TenantID := SubRequest.TenantID req\<rparr>,
      [ApplyTimeout (recipeTimeout orch (Recipe req)), OnStart (taskContext orch ctx req) req] @
      snd (safeExecute orch (taskContext orch ctx req) env req) @
      [OnComplete (taskContext orch ctx req) req
         ((fst (safeExecute orch (taskContext orch ctx req) env req))
            \<lparr>Duration := elapsed env, TenantID := SubRequest.TenantID req\<rparr>)
         (elapsed env),
       CancelTimeout])"
  using assms
  by (simp add: runRequest_def validRequest_def taskContext_def Let_def case_prod_beta)

lemma safeExecute_ID [simp]: "ID (fst (safeExecute orch ctx env req)) = SubRequest.ID req"
  by (simp add: safeExecute_def errorResponse_def Let_def
      split: option.splits HandlerResult.splits GoError.splits prod.splits)

lemma taskResponse_ID [simp]: "ID (taskResponse orch ctx env req) = SubRequest.ID req"
  by (cases "validRequest req")
     (simp_all add: taskResponse_def runRequest_valid runRequest_invalid)

lemma taskResponse_TenantID [simp]:
  "TenantID (taskResponse orch ctx env req) = SubRequest.TenantID req"
  by (cases "validRequest req")
     (simp_all add: taskResponse_def runRequest_valid runRequest_invalid)

lemma tooLarge_ID [simp]: "ID (tooLarge orch n req) = SubRequest.ID req"
  by (simp add: tooLarge_def)

lemma tooLarge_TenantID [simp]: "TenantID (tooLarge orch n req) = SubRequest.TenantID req"
  by (simp add: tooLarge_def)

lemmas ErrCodes = ErrCodeRecipeNotFound_def ErrCodeTimeout_def ErrCodePanic_def
  ErrCodeRecipeExecution_def ErrCodeBatchTooLarge_def ErrCodeInvalidRequest_def

text \<open>Every response literal of the orchestrator pairs its status with its error.\<close>

lemma safeExecute_shape: "errorShape (fst (safeExecute orch ctx env req))"
  by (simp add: safeExecute_def errorResponse_def Let_def errorShape_def statusCodes_def ErrCodes
      split: option.splits HandlerResult.splits GoError.splits prod.splits)

lemma errorShape_update:
  "errorShape (resp\<lparr>Duration := d, TenantID := t\<rparr>) = errorShape resp"
  by (simp add: errorShape_def split: option.splits)

lemma taskResponse_shape: "errorShape (taskResponse orch ctx env req)"
  by (cases "validRequest req")
     (simp_all add: taskResponse_def runRequest_valid runRequest_invalid errorShape_update
        safeExecute_shape, simp add: errorShape_def statusCodes_def ErrCodes)

lemma tooLarge_shape: "errorShape (tooLarge orch n req)"
  by (simp add: tooLarge_def errorShape_def statusCodes_def ErrCodes)

lemma errorShape_iff:
  assumes "errorShape resp"
  shows "(Error resp \<noteq> None) = (\<not> (200 \<le> Status resp \<and> Status resp < 300))"
  using assms by (auto simp: errorShape_def statusCodes_def split: option.splits)

text \<open>Two lists that agree position by position agree after filtering.\<close>

lemma filter_positional:
  assumes "length R = length B"
    and "\<forall>i<length B. f (R ! i) = g (B ! i) \<and> p (R ! i) = q (B ! i)"
  shows "map f (filter p R) = map g (filter q B)"
  using assms
proof (induction R B rule: list_induct2)
  case Nil
  then show ?case by simp
next
  case (Cons r R b B)
  have hd: "f r = g b \<and> p r = q b" using Cons.prems by auto
  have "\<forall>i<length B. f (R ! i) = g (B ! i) \<and> p (R ! i) = q (B ! i)"
    using Cons.prems by auto
  then show ?case using Cons.IH hd by simp
qed

text \<open>The two outcomes of \<^verbatim>\<open>safeExecute\<close> that the claims single out.\<close>

lemma safeExecute_missing:
  assumes "registry orch (Recipe req) = None"
  shows "safeExecute orch ctx env req =
     (errorResponse (SubRequest.ID req) 404 ErrCodeRecipeNotFound
        (''recipe '' @ [CHR 0x27] @ Recipe req @ [CHR 0x27] @ '' not found''), [])"
  using assms by (simp add: safeExecute_def)

lemma safeExecute_panic:
  assumes "registry orch (Recipe req) = Some handler"
    and "handler ctx (Payload req) = Panics r"
  shows "safeExecute orch ctx env req =
     (if Err ctx env = Some DeadlineExceeded
      then errorResponse (SubRequest.ID req) 504 ErrCodeTimeout ''recipe execution timed out''
      else errorResponse (SubRequest.ID req) 500 ErrCodePanic
             ''internal error during recipe execution'',
      [CallHandler ctx req, OnPanic ctx req r])"
  using assms by (simp add: safeExecute_def)

lemma len_bigBatch: "length bigBatch = 20"
  by (simp add: bigBatch_def)

lemma fmt_d_20: "fmt_d 20 = ''20''"
  by code_simp

lemma fmt_d_10: "fmt_d 10 = ''10''"
  by code_simp

text \<open>The digits that \<open>fmt_nat\<close> writes are the decimal digits of the number.\<close>

lemma decimal_value_snoc:
  "decimal_value (s @ [c]) = 10 * decimal_value s + (of_char c - 48)"
  by (simp add: decimal_value_def)

lemma fmt_nat_value: "decimal_value (fmt_nat n) = n"
proof (induction n rule: fmt_nat.induct)
  case (1 n)
  show ?case
  proof (cases "n < 10")
    case True
    then show ?thesis by (simp add: fmt_nat.simps[of n] decimal_value_def)
  next
    case False
    have "decimal_value (fmt_nat n) = 10 * decimal_value (fmt_nat (n div 10)) + n mod 10"
      using False by (simp add: fmt_nat.simps[of n] decimal_value_snoc)
    then show ?thesis using 1[OF False] by simp
  qed
qed

text \<open>
  An orchestrator made by \<^verbatim>\<open>New\<close> has an empty semaphore, and registration does not touch
  the semaphore.
\<close>

lemma applyOption_keeps:
  assumes "applyOption opt orch = Inr orch'"
  shows "semaphore orch' = semaphore orch \<and>
         (0 \<le> maxConcurrency orch \<longrightarrow> 0 \<le> maxConcurrency orch')"
  using assms by (cases opt) (auto split: if_splits)

lemma applyOptions_keeps:
  assumes "applyOptions opts orch = Inr orch'" and "0 \<le> maxConcurrency orch"
  shows "semaphore orch' = semaphore orch \<and> 0 \<le> maxConcurrency orch'"
  using assms
proof (induction opts arbitrary: orch)
  case Nil
  then show ?case by simp
next
  case (Cons opt opts)
  then obtain orch1 where one: "applyOption opt orch = Inr orch1"
    and rest: "applyOptions opts orch1 = Inr orch'"
    by (auto split: sum.splits)
  show ?case
    using Cons.IH[OF rest] applyOption_keeps[OF one] Cons.prems(2) by simp
qed

lemma New_slotFree:
  assumes "New opts = Inr orch"
  shows "slotFree orch \<and> semaphore orch = 0"
  using applyOptions_keeps[OF assms[unfolded New_def]]
  by (auto simp: slotFree_def)

lemma RegisterRecipe_slotFree:
  assumes "RegisterRecipe orch name handler opts = Inr orch'"
  shows "slotFree orch' = slotFree orch"
  using assms
  by (auto simp: RegisterRecipe_def slotFree_def split: if_splits option.splits)

text \<open>
  The first scenario of the spec: an echo request and a request for a recipe that is not
  registered.
\<close>

lemma scenario_echo_and_missing:
  "respOf (ExecuteBatch demoOrch Background (\<lambda>i. env0) [reqEcho, reqMissing]) =
     Some [\<lparr>ID = ''1'', Status = 200, Data = Some ''hi'', Error = None, Duration = 1000,
            TenantID = ''a''\<rparr>,
           \<lparr>ID = ''2'', Status = 404, Data = None,
            Error = Some \<lparr>Code = ''RECIPE_NOT_FOUND'',
                          Message = ''recipe '' @ [CHR 0x27] @ ''missing'' @ [CHR 0x27] @
                                    '' not found'',
                          Details = []\<rparr>,
            Duration = 1000, TenantID = ''b''\<rparr>]"
  by code_simp

section \<open>The batch call\<close>

text \<open>
  Claim C1. For every batch \<open>B\<close>, every base context, every behaviour of the handlers and
  every timing, \<^verbatim>\<open>ExecuteBatch\<close> returns a response list \<open>R\<close> with as many entries as \<open>B\<close>
  and \<open>R[i].ID = B[i].ID\<close> at every index; when the batch is not rejected for its size,
  the entry at index \<open>i\<close> is the response that the task of request \<open>i\<close> wrote. The result
  type of the call has no error case: failures of sub-requests only show in the entries.
  The call returns once the sends on the semaphore complete, which \<open>slotFree\<close> states
  (it holds for every orchestrator made by \<^verbatim>\<open>New\<close>, see \<open>New_slotFree\<close>, and the call
  leaves the orchestrator as it found it).
\<close>

theorem ExecuteBatch_one_response_per_request:
  assumes "slotFree orch"
  shows "\<exists>R tr. ExecuteBatch orch ctx envs B = Some (R, tr, orch)
     \<and> length R = length B
     \<and> (\<forall>i<length B. ID (R ! i) = SubRequest.ID (B ! i))
     \<and> (\<not> oversized orch B \<longrightarrow>
          (\<forall>i<length B. \<exists>tr_i.
             executeRequest orch ctx (envs i) (B ! i) = Some (R ! i, tr_i, orch)))"
proof (cases "oversized orch B")
  case True
  then show ?thesis by (simp add: ExecuteBatch_oversized)
next
  case False
  then show ?thesis
    by (simp add: ExecuteBatch_free[OF assms False] executeRequest_free[OF assms])
qed

theorem ExecuteBatch_one_response_per_request_witness:
  "slotFree idleOrch \<and>
   (\<exists>R tr. ExecuteBatch idleOrch Background (\<lambda>i. env0) [reqEcho, reqMissing, reqPanic]
         = Some (R, tr, idleOrch)
     \<and> length R = length [reqEcho, reqMissing, reqPanic]
     \<and> (\<forall>i<length [reqEcho, reqMissing, reqPanic].
           ID (R ! i) = SubRequest.ID ([reqEcho, reqMissing, reqPanic] ! i))
     \<and> (\<not> oversized idleOrch [reqEcho, reqMissing, reqPanic] \<longrightarrow>
          (\<forall>i<length [reqEcho, reqMissing, reqPanic]. \<exists>tr_i.
             executeRequest idleOrch Background env0 ([reqEcho, reqMissing, reqPanic] ! i)
               = Some (R ! i, tr_i, idleOrch))))"
proof -
  have free: "slotFree idleOrch"
    by (simp add: slotFree_def idleOrch_def demoOrch_def)
  show ?thesis
    using free ExecuteBatch_one_response_per_request
            [OF free, of Background "\<lambda>i. env0" "[reqEcho, reqMissing, reqPanic]"]
    by blast
qed


text \<open>
  Claim C5. With a positive \<open>maxBatchSize\<close> \<open>M\<close> and a batch of \<open>N > M\<close> requests, every
  request gets status 413 with code \<open>BATCH_TOO_LARGE\<close> and the message
  "batch size N exceeds limit of M", the response list has one entry per request with the
  request's ID and tenant, and the call causes no event at all: no task takes a slot, no
  hook is called, no handler runs.
\<close>

theorem oversized_batch_rejected:
  assumes "maxBatchSize orch > 0" and "int (length B) > maxBatchSize orch"
  shows "\<exists>R. ExecuteBatch orch ctx envs B = Some (R, [], orch) \<and> length R = length B \<and>
     (\<forall>i<length B. R ! i =
        \<lparr>ID = SubRequest.ID (B ! i), Status = 413, Data = None,
         Error = Some \<lparr>Code = ''BATCH_TOO_LARGE'',
                       Message = ''batch size '' @ fmt_d (int (length B)) @
                                 '' exceeds limit of '' @ fmt_d (maxBatchSize orch),
                       Details = []\<rparr>,
         Duration = 0, TenantID = SubRequest.TenantID (B ! i)\<rparr>)"
  using assms by (simp add: ExecuteBatch_def tooLarge_def ErrCodes)

text \<open>The scenario of the spec: 20 requests against a limit of 10.\<close>

theorem oversized_batch_rejected_witness:
  "maxBatchSize sizedOrch > 0 \<and> int (length bigBatch) > maxBatchSize sizedOrch \<and>
   (\<exists>R. ExecuteBatch sizedOrch Background (\<lambda>i. env0) bigBatch = Some (R, [], sizedOrch) \<and>
     length R = 20 \<and>
     (\<forall>i<20. R ! i =
        \<lparr>ID = SubRequest.ID (bigBatch ! i), Status = 413, Data = None,
         Error = Some \<lparr>Code = ''BATCH_TOO_LARGE'',
                       Message = ''batch size 20 exceeds limit of 10'',
                       Details = []\<rparr>,
         Duration = 0, TenantID = SubRequest.TenantID (bigBatch ! i)\<rparr>))"
proof -
  have m: "maxBatchSize sizedOrch = 10" by (simp add: sizedOrch_def demoOrch_def)
  have pos: "maxBatchSize sizedOrch > 0"
    and big: "int (length bigBatch) > maxBatchSize sizedOrch"
    by (simp_all add: m len_bigBatch)
  show ?thesis
    using pos big oversized_batch_rejected[OF pos big, of Background "\<lambda>i. env0"]
    by (simp add: m len_bigBatch fmt_d_20 fmt_d_10)
qed

text \<open>
  Claim C9. In every response that \<^verbatim>\<open>ExecuteBatch\<close> returns, the error is present exactly
  when the status is outside the success range 200..299: a response without error has
  status 200, and a response with an error has one of the statuses 400, 404, 413, 500,
  504, paired with its code.
\<close>

theorem error_present_iff_not_success:
  assumes "slotFree orch"
  shows "\<exists>R tr. ExecuteBatch orch ctx envs B = Some (R, tr, orch) \<and>
     (\<forall>resp\<in>set R.
        ((Error resp \<noteq> None) = (\<not> (200 \<le> Status resp \<and> Status resp < 300))) \<and>
        (case Error resp of
           None \<Rightarrow> Status resp = 200
         | Some e \<Rightarrow> (Status resp, Code e) \<in> set statusCodes))"
proof -
  have "\<exists>R tr. ExecuteBatch orch ctx envs B = Some (R, tr, orch) \<and>
          (\<forall>resp\<in>set R. errorShape resp)"
  proof (cases "oversized orch B")
    case True
    then show ?thesis by (simp add: ExecuteBatch_oversized tooLarge_shape)
  next
    case False
    then show ?thesis by (simp add: ExecuteBatch_free[OF assms False] taskResponse_shape)
  qed
  then obtain R tr where run: "ExecuteBatch orch ctx envs B = Some (R, tr, orch)"
    and shape: "\<forall>resp\<in>set R. errorShape resp" by blast
  have "\<forall>resp\<in>set R.
        ((Error resp \<noteq> None) = (\<not> (200 \<le> Status resp \<and> Status resp < 300))) \<and>
        (case Error resp of
           None \<Rightarrow> Status resp = 200
         | Some e \<Rightarrow> (Status resp, Code e) \<in> set statusCodes)"
    using shape errorShape_iff by (auto simp: errorShape_def)
  with run show ?thesis by blast
qed

theorem error_present_iff_not_success_witness:
  "slotFree idleOrch \<and>
   (\<exists>R tr. ExecuteBatch idleOrch Background (\<lambda>i. env0)
              [reqEcho, reqMissing, reqPanic, reqNoTenant] = Some (R, tr, idleOrch) \<and>
     (\<forall>resp\<in>set R.
        ((Error resp \<noteq> None) = (\<not> (200 \<le> Status resp \<and> Status resp < 300))) \<and>
        (case Error resp of
           None \<Rightarrow> Status resp = 200
         | Some e \<Rightarrow> (Status resp, Code e) \<in> set statusCodes)))"
proof -
  have free: "slotFree idleOrch"
    by (simp add: slotFree_def idleOrch_def demoOrch_def)
  show ?thesis
    using free error_present_iff_not_success
            [OF free, of Background "\<lambda>i. env0" "[reqEcho, reqMissing, reqPanic, reqNoTenant]"]
    by blast
qed

text \<open>
  Claim C10. Every response that \<^verbatim>\<open>ExecuteBatch\<close> returns carries the tenant of the request
  at the same position, whatever the outcome, so that \<^verbatim>\<open>FilterByTenant\<close> selects, for every
  tenant, the responses of exactly the requests of that tenant, in order.
\<close>

theorem tenant_mirrored:
  assumes "slotFree orch"
  shows "\<exists>R tr. ExecuteBatch orch ctx envs B = Some (R, tr, orch) \<and> length R = length B \<and>
     (\<forall>i<length B. TenantID (R ! i) = SubRequest.TenantID (B ! i)) \<and>
     (\<forall>t. map ID (FilterByTenant R t) =
          map SubRequest.ID (filter (\<lambda>req. SubRequest.TenantID req = t) B))"
proof -
  have "\<exists>R tr. ExecuteBatch orch ctx envs B = Some (R, tr, orch) \<and> length R = length B \<and>
     (\<forall>i<length B. TenantID (R ! i) = SubRequest.TenantID (B ! i) \<and>
                     ID (R ! i) = SubRequest.ID (B ! i))"
  proof (cases "oversized orch B")
    case True
    then show ?thesis by (simp add: ExecuteBatch_oversized)
  next
    case False
    then show ?thesis by (simp add: ExecuteBatch_free[OF assms False])
  qed
  then obtain R tr where run: "ExecuteBatch orch ctx envs B = Some (R, tr, orch)"
    and len: "length R = length B"
    and nth: "\<forall>i<length B. TenantID (R ! i) = SubRequest.TenantID (B ! i) \<and>
                            ID (R ! i) = SubRequest.ID (B ! i)"
    by blast
  have "map ID (FilterByTenant R t) =
          map SubRequest.ID (filter (\<lambda>req. SubRequest.TenantID req = t) B)" for t
    unfolding FilterByTenant_def
    by (rule filter_positional[OF len]) (use nth in auto)
  with run len nth show ?thesis by blast
qed

theorem tenant_mirrored_witness:
  "slotFree idleOrch \<and>
   (\<exists>R tr. ExecuteBatch idleOrch Background (\<lambda>i. envLate)
              [reqEcho, reqMissing, reqPanic, reqNoTenant] = Some (R, tr, idleOrch) \<and>
     length R = length [reqEcho, reqMissing, reqPanic, reqNoTenant] \<and>
     (\<forall>i<length [reqEcho, reqMissing, reqPanic, reqNoTenant].
        TenantID (R ! i) = SubRequest.TenantID ([reqEcho, reqMissing, reqPanic, reqNoTenant] ! i)) \<and>
     (\<forall>t. map ID (FilterByTenant R t) =
          map SubRequest.ID (filter (\<lambda>req. SubRequest.TenantID req = t)
                               [reqEcho, reqMissing, reqPanic, reqNoTenant])))"
proof -
  have free: "slotFree idleOrch"
    by (simp add: slotFree_def idleOrch_def demoOrch_def)
  show ?thesis
    using free tenant_mirrored
            [OF free, of Background "\<lambda>i. envLate" "[reqEcho, reqMissing, reqPanic, reqNoTenant]"]
    by blast
qed

section \<open>One task\<close>

text \<open>
  Claim C6. A request whose ID, tenant or recipe is empty gets status 400 with code
  \<open>INVALID_REQUEST\<close>; the task calls no handler, and neither the start hook nor the
  completion hook.
\<close>

theorem invalid_request_rejected:
  assumes "SubRequest.ID req = [] \<or> SubRequest.TenantID req = [] \<or> Recipe req = []"
    and "slotFree orch"
  shows "\<exists>resp tr. executeRequest orch ctx env req = Some (resp, tr, orch) \<and>
     Status resp = 400 \<and>
     (\<exists>e. Error resp = Some e \<and> Code e = ''INVALID_REQUEST'') \<and>
     \<not> list_ex isCallHandler tr \<and> \<not> list_ex isOnStart tr \<and> \<not> list_ex isOnComplete tr"
proof -
  have inv: "\<not> validRequest req" using assms(1) by (auto simp: validRequest_def)
  show ?thesis
    by (simp add: executeRequest_free[OF assms(2)] taskResponse_def taskTrace_def
        runRequest_invalid[OF inv] ErrCodeInvalidRequest_def)
qed

theorem invalid_request_rejected_witness:
  "(SubRequest.ID reqNoTenant = [] \<or> SubRequest.TenantID reqNoTenant = [] \<or>
    Recipe reqNoTenant = []) \<and>
   slotFree idleOrch \<and>
   (\<exists>resp tr. executeRequest idleOrch Background env0 reqNoTenant = Some (resp, tr, idleOrch) \<and>
     Status resp = 400 \<and>
     (\<exists>e. Error resp = Some e \<and> Code e = ''INVALID_REQUEST'') \<and>
     \<not> list_ex isCallHandler tr \<and> \<not> list_ex isOnStart tr \<and> \<not> list_ex isOnComplete tr)"
proof -
  have inv: "SubRequest.ID reqNoTenant = [] \<or> SubRequest.TenantID reqNoTenant = [] \<or>
             Recipe reqNoTenant = []"
    by (simp add: reqNoTenant_def)
  have free: "slotFree idleOrch"
    by (simp add: slotFree_def idleOrch_def demoOrch_def)
  show ?thesis
    using inv free invalid_request_rejected[OF inv free, of Background env0] by blast
qed

text \<open>
  Claim C3, as the code has it. A valid request whose recipe is not registered gets status
  404 with code \<open>RECIPE_NOT_FOUND\<close> and no handler is called; the start hook is called once
  for the request, since \<^verbatim>\<open>executeRequest\<close> calls it before \<^verbatim>\<open>safeExecute\<close> looks the
  recipe up.
\<close>

theorem unknown_recipe_not_found:
  assumes "validRequest req" and "registry orch (Recipe req) = None" and "slotFree orch"
  shows "\<exists>resp tr. executeRequest orch ctx env req = Some (resp, tr, orch) \<and>
     Status resp = 404 \<and>
     (\<exists>e. Error resp = Some e \<and> Code e = ''RECIPE_NOT_FOUND'') \<and>
     \<not> list_ex isCallHandler tr \<and>
     filter isOnStart tr = [OnStart (taskContext orch ctx req) req]"
  by (simp add: executeRequest_free[OF assms(3)] taskResponse_def taskTrace_def
      runRequest_valid[OF assms(1)] safeExecute_missing[OF assms(2)] errorResponse_def
      ErrCodeRecipeNotFound_def)

theorem unknown_recipe_not_found_witness:
  "validRequest reqMissing \<and> registry idleOrch (Recipe reqMissing) = None \<and>
   slotFree idleOrch \<and>
   (\<exists>resp tr. executeRequest idleOrch Background env0 reqMissing = Some (resp, tr, idleOrch) \<and>
     Status resp = 404 \<and>
     (\<exists>e. Error resp = Some e \<and> Code e = ''RECIPE_NOT_FOUND'') \<and>
     \<not> list_ex isCallHandler tr \<and>
     filter isOnStart tr = [OnStart (taskContext idleOrch Background reqMissing) reqMissing])"
proof -
  have v: "validRequest reqMissing" by (simp add: validRequest_def reqMissing_def)
  have m: "registry idleOrch (Recipe reqMissing) = None"
    by (simp add: idleOrch_def demoOrch_def reqMissing_def)
  have free: "slotFree idleOrch" by (simp add: slotFree_def idleOrch_def demoOrch_def)
  show ?thesis
    using v m free unknown_recipe_not_found[OF v m free, of Background env0] by blast
qed

text \<open>
  The claim as the spec states it, that the start hook is not called for an unregistered
  recipe, fails: the request \<open>reqMissing\<close> is valid, its recipe is not registered, the
  response is 404, and the events of the task contain the call of \<^verbatim>\<open>OnStart\<close>.
\<close>

theorem unknown_recipe_start_hook_counterexample:
  "validRequest reqMissing \<and> registry demoOrch (Recipe reqMissing) = None \<and>
   map_option Status (respOf (executeRequest demoOrch Background env0 reqMissing)) = Some 404 \<and>
   map_option (filter isOnStart) (traceOf (executeRequest demoOrch Background env0 reqMissing))
     = Some [OnStart (taskContext demoOrch Background reqMissing) reqMissing]"
  by code_simp

text \<open>
  Claim C4, as the code has it. When the handler of a valid request panics, the panic hook
  is called exactly once, with the recovered value itself. Unless the deadline of the task
  context has passed when the handler ends, the response is 500 with code \<open>PANIC\<close>, the
  fixed message and nothing of the panic value; when the deadline has passed, the check
  of the deadline comes first and the response is 504 with code \<open>TIMEOUT\<close>.
\<close>

theorem panic_isolated:
  assumes "validRequest req"
    and "registry orch (Recipe req) = Some handler"
    and "handler (taskContext orch ctx req) (Payload req) = Panics r"
    and "slotFree orch"
  shows "\<exists>resp tr. executeRequest orch ctx env req = Some (resp, tr, orch) \<and>
     filter isOnPanic tr = [OnPanic (taskContext orch ctx req) req r] \<and>
     (Err (taskContext orch ctx req) env \<noteq> Some DeadlineExceeded \<longrightarrow>
        resp = \<lparr>ID = SubRequest.ID req, Status = 500, Data = None,
                Error = Some \<lparr>Code = ''PANIC'',
                              Message = ''internal error during recipe execution'',
                              Details = []\<rparr>,
                Duration = elapsed env, TenantID = SubRequest.TenantID req\<rparr>) \<and>
     (Err (taskContext orch ctx req) env = Some DeadlineExceeded \<longrightarrow>
        resp = \<lparr>ID = SubRequest.ID req, Status = 504, Data = None,
                Error = Some \<lparr>Code = ''TIMEOUT'', Message = ''recipe execution timed out'',
                              Details = []\<rparr>,
                Duration = elapsed env, TenantID = SubRequest.TenantID req\<rparr>)"
  by (simp add: executeRequest_free[OF assms(4)] taskResponse_def taskTrace_def
      runRequest_valid[OF assms(1)] safeExecute_panic[OF assms(2,3)] errorResponse_def
      ErrCodePanic_def ErrCodeTimeout_def)

theorem panic_isolated_witness:
  "validRequest reqPanic \<and> registry demoOrch (Recipe reqPanic) = Some boom \<and>
   boom (taskContext demoOrch Background reqPanic) (Payload reqPanic)
     = Panics ''sensitive internal error with file paths'' \<and>
   slotFree demoOrch \<and>
   Err (taskContext demoOrch Background reqPanic) env0 \<noteq> Some DeadlineExceeded \<and>
   (\<exists>resp tr. executeRequest demoOrch Background env0 reqPanic = Some (resp, tr, demoOrch) \<and>
     filter isOnPanic tr = [OnPanic (taskContext demoOrch Background reqPanic) reqPanic
                               ''sensitive internal error with file paths''] \<and>
     resp = \<lparr>ID = ''3'', Status = 500, Data = None,
             Error = Some \<lparr>Code = ''PANIC'',
                           Message = ''internal error during recipe execution'',
                           Details = []\<rparr>,
             Duration = 1000, TenantID = ''tenant-a''\<rparr>)"
proof -
  have v: "validRequest reqPanic" by (simp add: validRequest_def reqPanic_def)
  have h: "registry demoOrch (Recipe reqPanic) = Some boom"
    by (simp add: demoOrch_def reqPanic_def)
  have p: "boom (taskContext demoOrch Background reqPanic) (Payload reqPanic)
     = Panics ''sensitive internal error with file paths''" by (simp add: boom_def)
  have free: "slotFree demoOrch" by (simp add: slotFree_def demoOrch_def)
  have e: "Err (taskContext demoOrch Background reqPanic) env0 \<noteq> Some DeadlineExceeded"
    by (simp add: Err_def taskContext_def context_WithTimeout_def enrich_def WithRecipeName_def
        WithRequestID_def WithTenantID_def Background_def env0_def)
  have vals: "SubRequest.ID reqPanic = ''3''" "SubRequest.TenantID reqPanic = ''tenant-a''"
    "elapsed env0 = 1000"
    by (simp_all add: reqPanic_def env0_def)
  show ?thesis
    using v h p free e panic_isolated[OF v h p free, of env0] vals by auto
qed

text \<open>
  The claim as the spec states it, 500 with code \<open>PANIC\<close> for every handler that panics,
  fails when the deadline has passed by the time the handler panics: the response of
  \<open>reqPanic\<close> under \<open>envLate\<close> is 504 with code \<open>TIMEOUT\<close>.
\<close>

theorem panic_after_deadline_counterexample:
  "validRequest reqPanic \<and> registry demoOrch (Recipe reqPanic) = Some boom \<and>
   boom (taskContext demoOrch Background reqPanic) (Payload reqPanic)
     = Panics ''sensitive internal error with file paths'' \<and>
   map_option Status (respOf (executeRequest demoOrch Background envLate reqPanic)) = Some 504 \<and>
   map_option codeOf (respOf (executeRequest demoOrch Background envLate reqPanic))
     = Some (Some ''TIMEOUT'')"
proof -
  have v: "validRequest reqPanic" by (simp add: validRequest_def reqPanic_def)
  have h: "registry demoOrch (Recipe reqPanic) = Some boom"
    by (simp add: demoOrch_def reqPanic_def)
  have p: "boom (taskContext demoOrch Background reqPanic) (Payload reqPanic)
     = Panics ''sensitive internal error with file paths''" by (simp add: boom_def)
  have st: "map_option Status (respOf (executeRequest demoOrch Background envLate reqPanic))
     = Some 504" by code_simp
  have cd: "map_option codeOf (respOf (executeRequest demoOrch Background envLate reqPanic))
     = Some (Some ''TIMEOUT'')" by code_simp
  show ?thesis using v h p st cd by blast
qed

text \<open>
  Claim C7, as the code has it. A task whose send on the semaphore completes runs its
  steps in this order: it takes the concurrency slot (when a limit is set), validates the
  request, builds the task context with the timeout of the recipe (the per-recipe option
  when it exists and is positive, else the default) and applies that timeout, calls the
  start hook, the handler (and the panic hook), the completion hook, cancels the timeout
  and gives the slot back. The slot is taken before validation, and the timeout is applied
  after the slot has been taken.
\<close>

theorem task_steps_in_order:
  assumes "slotFree orch"
  shows "\<exists>resp body.
     executeRequest orch ctx env req =
       Some (resp,
             (if maxConcurrency orch > 0 then [SemAcquire] @ body @ [SemRelease] else body),
             orch) \<and>
     (\<not> validRequest req \<longrightarrow> Status resp = 400 \<and> body = []) \<and>
     (validRequest req \<longrightarrow>
        (\<exists>run. body =
            [ApplyTimeout (recipeTimeout orch (Recipe req)),
             OnStart (taskContext orch ctx req) req] @ run @
            [OnComplete (taskContext orch ctx req) req resp (elapsed env), CancelTimeout] \<and>
          (\<forall>e\<in>set run. isCallHandler e \<or> isOnPanic e))) \<and>
     recipeTimeout orch (Recipe req) =
       (case recipeOptions orch (Recipe req) of
          None \<Rightarrow> timeout orch
        | Some opt \<Rightarrow> if Timeout opt > 0 then Timeout opt else timeout orch)"
proof -
  have run_events:
    "\<forall>e\<in>set (snd (safeExecute orch c env req)). isCallHandler e \<or> isOnPanic e" for c
    by (simp add: safeExecute_def Let_def
        split: option.splits HandlerResult.splits GoError.splits prod.splits)
  have rt: "recipeTimeout orch (Recipe req) =
       (case recipeOptions orch (Recipe req) of
          None \<Rightarrow> timeout orch
        | Some opt \<Rightarrow> if Timeout opt > 0 then Timeout opt else timeout orch)"
    by (simp add: recipeTimeout_def split: option.splits)
  have "\<exists>resp body.
     executeRequest orch ctx env req =
       Some (resp,
             (if maxConcurrency orch > 0 then [SemAcquire] @ body @ [SemRelease] else body),
             orch) \<and>
     (\<not> validRequest req \<longrightarrow> Status resp = 400 \<and> body = []) \<and>
     (validRequest req \<longrightarrow>
        (\<exists>run. body =
            [ApplyTimeout (recipeTimeout orch (Recipe req)),
             OnStart (taskContext orch ctx req) req] @ run @
            [OnComplete (taskContext orch ctx req) req resp (elapsed env), CancelTimeout] \<and>
          (\<forall>e\<in>set run. isCallHandler e \<or> isOnPanic e)))"
  proof (cases "validRequest req")
    case False
    then show ?thesis
      by (simp add: executeRequest_free[OF assms] taskResponse_def taskTrace_def
          runRequest_invalid)
  next
    case True
    show ?thesis
      apply (rule exI[of _ "taskResponse orch ctx env req"])
      apply (rule exI[of _ "snd (runRequest orch ctx env req)"])
      apply (simp add: executeRequest_free[OF assms] taskTrace_def True)
      apply (rule exI[of _ "snd (safeExecute orch (taskContext orch ctx req) env req)"])
      apply (simp add: taskResponse_def runRequest_valid[OF True] run_events)
      done
  qed
  with rt show ?thesis by blast
qed

theorem task_steps_in_order_witness:
  "slotFree idleOrch \<and> validRequest reqEcho \<and> \<not> validRequest reqNoTenant \<and>
   (\<exists>resp. executeRequest idleOrch Background env0 reqNoTenant =
        Some (resp, [SemAcquire, SemRelease], idleOrch) \<and> Status resp = 400) \<and>
   (\<exists>resp run. executeRequest idleOrch Background env0 reqEcho =
        Some (resp,
              [SemAcquire, ApplyTimeout 5000000000,
               OnStart (taskContext idleOrch Background reqEcho) reqEcho] @ run @
              [OnComplete (taskContext idleOrch Background reqEcho) reqEcho resp 1000,
               CancelTimeout, SemRelease], idleOrch))"
proof -
  have free: "slotFree idleOrch" by (simp add: slotFree_def idleOrch_def demoOrch_def)
  have v: "validRequest reqEcho" by (simp add: validRequest_def reqEcho_def)
  have nv: "\<not> validRequest reqNoTenant" by (simp add: validRequest_def reqNoTenant_def)
  have lim: "0 < maxConcurrency idleOrch" by (simp add: idleOrch_def demoOrch_def)
  have t: "recipeTimeout idleOrch (Recipe reqEcho) = 5000000000"
    by (simp add: recipeTimeout_def idleOrch_def demoOrch_def)
  have el: "elapsed env0 = 1000" by (simp add: env0_def)
  have b: "\<exists>resp. executeRequest idleOrch Background env0 reqNoTenant =
        Some (resp, [SemAcquire, SemRelease], idleOrch) \<and> Status resp = 400"
    using task_steps_in_order[OF free, of Background env0 reqNoTenant] nv lim by auto
  have c: "\<exists>resp run. executeRequest idleOrch Background env0 reqEcho =
        Some (resp,
              [SemAcquire, ApplyTimeout 5000000000,
               OnStart (taskContext idleOrch Background reqEcho) reqEcho] @ run @
              [OnComplete (taskContext idleOrch Background reqEcho) reqEcho resp 1000,
               CancelTimeout, SemRelease], idleOrch)"
    using task_steps_in_order[OF free, of Background env0 reqEcho] v lim t el by auto
  show ?thesis using free v nv b c by blast
qed

text \<open>
  The claim as the spec states it, validation before the slot and a deadline that covers
  the wait for the slot, fails: an invalid request waits for a slot while all are taken,
  takes and returns a slot when one is free, and for a valid request the timeout is applied
  only after the slot has been taken.
\<close>

theorem validation_after_acquire_counterexample:
  "\<not> validRequest reqNoTenant \<and>
   respOf (executeRequest busyOrch Background env0 reqNoTenant) = None \<and>
   traceOf (executeRequest idleOrch Background env0 reqNoTenant)
     = Some [SemAcquire, SemRelease] \<and>
   map_option (take 2) (traceOf (executeRequest idleOrch Background env0 reqEcho))
     = Some [SemAcquire, ApplyTimeout 5000000000]"
  by code_simp

text \<open>
  Claim C2 says that a task whose context is cancelled while it waits for a slot resolves
  to 504 with code \<open>TIMEOUT\<close> without running the handler. The send on the semaphore does
  not look at the context: with the context cancelled and the only slot taken the task
  produces no response, and once the slot is free it runs the handler and answers 200.
\<close>

theorem semaphore_wait_ignores_cancellation:
  "ctxErr cancelledCtx = Some Canceled \<and>
   0 < maxConcurrency busyOrch \<and>
   respOf (executeRequest busyOrch cancelledCtx env0 reqSlow) = None \<and>
   map_option Status (respOf (executeRequest idleOrch cancelledCtx env0 reqSlow)) = Some 200 \<and>
   map_option codeOf (respOf (executeRequest idleOrch cancelledCtx env0 reqSlow)) = Some None \<and>
   map_option (list_ex isCallHandler)
     (traceOf (executeRequest idleOrch cancelledCtx env0 reqSlow)) = Some True"
  by code_simp

section \<open>Registration\<close>

text \<open>
  Claim C8. \<^verbatim>\<open>RegisterRecipeStrict\<close> panics exactly as \<^verbatim>\<open>RegisterRecipe\<close> does, on an empty
  name and on a nil handler; when the name is already registered it returns the error
  "already registered" and leaves the orchestrator, registry and options, as it was;
  otherwise it registers as \<^verbatim>\<open>RegisterRecipe\<close> does.
\<close>

theorem RegisterRecipeStrict_contract:
  "(name = [] \<longrightarrow>
      RegisterRecipeStrict orch name handler opts = Inl ''recipe name cannot be empty'' \<and>
      RegisterRecipe orch name handler opts = Inl ''recipe name cannot be empty'') \<and>
   (name \<noteq> [] \<and> handler = None \<longrightarrow>
      RegisterRecipeStrict orch name handler opts = Inl ''recipe handler cannot be nil'' \<and>
      RegisterRecipe orch name handler opts = Inl ''recipe handler cannot be nil'') \<and>
   (name \<noteq> [] \<and> handler \<noteq> None \<and> registry orch name \<noteq> None \<longrightarrow>
      RegisterRecipeStrict orch name handler opts = Inr (Some (AlreadyRegistered name), orch)) \<and>
   (name \<noteq> [] \<and> handler \<noteq> None \<and> registry orch name = None \<longrightarrow>
      (\<exists>orch'. RegisterRecipe orch name handler opts = Inr orch' \<and>
               RegisterRecipeStrict orch name handler opts = Inr (None, orch')))"
  by (auto simp: RegisterRecipeStrict_def RegisterRecipe_def split: option.splits)

theorem RegisterRecipeStrict_contract_witness:
  "RegisterRecipeStrict demoOrch [] (Some echo) [] = Inl ''recipe name cannot be empty'' \<and>
   RegisterRecipe demoOrch [] (Some echo) [] = Inl ''recipe name cannot be empty'' \<and>
   RegisterRecipeStrict demoOrch ''test'' None [] = Inl ''recipe handler cannot be nil'' \<and>
   RegisterRecipe demoOrch ''test'' None [] = Inl ''recipe handler cannot be nil'' \<and>
   registry demoOrch ''echo'' \<noteq> None \<and>
   RegisterRecipeStrict demoOrch ''echo'' (Some slow) [Some \<lparr>Timeout = 30\<rparr>]
     = Inr (Some (AlreadyRegistered ''echo''), demoOrch) \<and>
   registry demoOrch ''test'' = None \<and>
   (\<exists>orch'. RegisterRecipe demoOrch ''test'' (Some slow) [] = Inr orch' \<and>
            RegisterRecipeStrict demoOrch ''test'' (Some slow) [] = Inr (None, orch'))"
proof -
  have r: "registry demoOrch ''echo'' \<noteq> None" and n: "registry demoOrch ''test'' = None"
    by (simp_all add: demoOrch_def)
  show ?thesis
    using r n
      RegisterRecipeStrict_contract[of "[]" demoOrch "Some echo" "[]"]
      RegisterRecipeStrict_contract[of "''test''" demoOrch None "[]"]
      RegisterRecipeStrict_contract
        [of "''echo''" demoOrch "Some slow" "[Some \<lparr>Timeout = 30\<rparr>]"]
      RegisterRecipeStrict_contract[of "''test''" demoOrch "Some slow" "[]"]
    by simp
qed

end
